theory Spec2Isabelle
  imports Main
begin

section \<open>Data types of \<open>src/src/App.tsx\<close>\<close>

text \<open>
  A JavaScript string is modelled as a \<open>string\<close>, one \<open>char\<close> per code unit, so
  \<open>substring(0, 30)\<close> is \<open>take 30\<close>. The fields \<open>id\<close> and \<open>messages\<close> occur in two
  source types; the selectors carry a prefix (\<open>msg_id\<close>, \<open>c_id\<close>, \<open>c_messages\<close>) because
  record selectors are global constants. The state variable \<open>text\<close> is \<open>inputText\<close>.
\<close>

datatype Role = User | Assistant

record N8nMessage =
  msg_id :: string
  role :: Role
  content :: string

record ConversationHistory =
  c_id :: string
  title :: string
  c_messages :: "N8nMessage list"

text \<open>
  The \<open>useState\<close> cells of \<open>App\<close> that the handlers read or write. The two scroll-arrow
  flags and the refs are written only by the scroll bookkeeping and are left out.
  \<open>activeConversationId\<close> is \<open>string | null\<close>: \<open>None\<close> is \<open>null\<close>.
\<close>

record App =
  messages :: "N8nMessage list"
  inputText :: string
  isLoading :: bool
  error :: "string option"
  isSidebarOpen :: bool
  hasInteracted :: bool
  conversationHistory :: "ConversationHistory list"
  activeConversationId :: "string option"

definition initial :: App where
  "initial = \<lparr>messages = [], inputText = [], isLoading = False, error = None,
     isSidebarOpen = False, hasInteracted = False, conversationHistory = [],
     activeConversationId = None\<rparr>"

section \<open>JavaScript primitives used by the handlers\<close>

text \<open>\<open>a || b\<close> on strings: the empty string is the only falsy string.\<close>

definition js_or :: "string \<Rightarrow> string \<Rightarrow> string" where
  "js_or a b = (if a = [] then b else a)"

text \<open>Truthiness of a \<open>string | null\<close> value, as tested by \<open>if (activeConversationId)\<close>.\<close>

definition truthy :: "string option \<Rightarrow> bool" where
  "truthy x = (case x of None \<Rightarrow> False | Some a \<Rightarrow> a \<noteq> [])"

text \<open>
  \<open>String.prototype.trim\<close>. The white space and line terminator code units below 256
  are TAB, LF, VT, FF, CR, SP and NBSP.
\<close>

definition isWhiteSpace :: "char \<Rightarrow> bool" where
  "isWhiteSpace c = (c \<in> set [CHR 0x09, CHR 0x0A, CHR 0x0B, CHR 0x0C, CHR 0x0D, CHR 0x20, CHR 0xA0])"

definition trim :: "string \<Rightarrow> string" where
  "trim s = rev (dropWhile isWhiteSpace (rev (dropWhile isWhiteSpace s)))"

text \<open>
  \<open>const N8N_CHAT_API = import.meta.env.VITE_N8N_CHAT_API || "YOUR_FALLBACK_WEBHOOK_URL"\<close>;
  an unset variable is \<open>None\<close>.
\<close>

definition N8N_CHAT_API :: "string option \<Rightarrow> string" where
  "N8N_CHAT_API env = js_or (case env of None \<Rightarrow> [] | Some u \<Rightarrow> u) ''YOUR_FALLBACK_WEBHOOK_URL''"

text \<open>The test \<open>!N8N_CHAT_API || N8N_CHAT_API === "YOUR_FALLBACK_WEBHOOK_URL"\<close>.\<close>

definition notConfigured :: "string \<Rightarrow> bool" where
  "notConfigured api = (api = [] \<or> api = ''YOUR_FALLBACK_WEBHOOK_URL'')"

section \<open>The handlers\<close>

definition loadingMessage :: N8nMessage where
  "loadingMessage = \<lparr>msg_id = ''loader'', role = Assistant, content = ''...''\<rparr>"

text \<open>
  The effect on \<open>[activeConversationId, conversationHistory]\<close> (lines 185 to 194):
  \<open>Array.prototype.find\<close> returns the first match; an id that matches no entry
  leaves \<open>messages\<close> as it is.
\<close>

definition syncEffect :: "App \<Rightarrow> App" where
  "syncEffect s =
     (if truthy (activeConversationId s)
      then (case find (\<lambda>c. Some (c_id c) = activeConversationId s) (conversationHistory s) of
              Some conv \<Rightarrow> s\<lparr>messages := c_messages conv\<rparr>
            | None \<Rightarrow> s)
      else s\<lparr>messages := []\<rparr>)"

definition startNewConversation :: "App \<Rightarrow> App" where
  "startNewConversation s =
     s\<lparr>activeConversationId := None, messages := [], inputText := [], isLoading := False,
       error := None, hasInteracted := True, isSidebarOpen := False\<rparr>"

definition loadConversation :: "string \<Rightarrow> App \<Rightarrow> App" where
  "loadConversation convId s =
     s\<lparr>activeConversationId := Some convId, hasInteracted := True, isSidebarOpen := False\<rparr>"

definition toggleSidebar :: "App \<Rightarrow> App" where
  "toggleSidebar s = s\<lparr>isSidebarOpen := \<not> isSidebarOpen s, hasInteracted := True\<rparr>"

text \<open>
  \<open>currentMessages\<close> of \<open>handleSend\<close> (lines 277 to 279):
  \<open>activeConversationId ? conversationHistory.find(...)?.messages || [] : messages\<close>.
  An array is truthy even when empty, so \<open>|| []\<close> applies only when no entry matches.
\<close>

definition currentMessages :: "App \<Rightarrow> N8nMessage list" where
  "currentMessages s =
     (if truthy (activeConversationId s)
      then (case find (\<lambda>c. Some (c_id c) = activeConversationId s) (conversationHistory s) of
              Some conv \<Rightarrow> c_messages conv
            | None \<Rightarrow> [])
      else messages s)"

text \<open>
  What the suspended \<open>handleSend\<close> keeps across \<open>await fetch\<close>: the values of its
  closure that the rest of the function reads.
\<close>

record Pending =
  p_activeConversationId :: "string option"
  p_n8nMessageList :: "N8nMessage list"

text \<open>
  \<open>handleSend\<close> up to the \<open>await\<close> (lines 264 to 300). \<open>uid\<close> is the value of
  \<open>nanoid()\<close> for the user turn. The state updates of one synchronous run are applied
  together, the later \<open>setMessages\<close> and \<open>setIsLoading\<close> of the not-configured branch
  overriding the earlier ones. The second component is the request sent, if any.
\<close>

definition handleSend :: "string \<Rightarrow> string \<Rightarrow> string \<Rightarrow> App \<Rightarrow> App \<times> Pending option" where
  "handleSend api uid messageContent s =
     (if trim messageContent = [] \<or> isLoading s then (s, None)
      else
        let userMessage = \<lparr>msg_id = uid, role = User, content = messageContent\<rparr>;
            n8nMessageList = currentMessages s @ [userMessage];
            s1 = s\<lparr>hasInteracted := True, error := None, inputText := [],
                   messages := messages s @ [userMessage, loadingMessage], isLoading := True\<rparr>
        in if notConfigured api
           then (s1\<lparr>error := Some ''Chat service is not configured.'',
                    messages := n8nMessageList, isLoading := False\<rparr>, None)
           else (s1, Some \<lparr>p_activeConversationId = activeConversationId s,
                           p_n8nMessageList = n8nMessageList\<rparr>))"

text \<open>
  How the awaited exchange ends: \<open>fetch\<close> or \<open>response.json()\<close> throws (with the
  message when the value thrown is an \<open>Error\<close>), the status is not OK (with
  \<open>statusText\<close>), or a body is parsed, whose \<open>messages\<close> field is \<open>None\<close> when falsy.
\<close>

datatype fetch_outcome =
    Rejected "string option"
  | NotOk string
  | Parsed "N8nMessage list option"

text \<open>
  The \<open>try\<close> block up to line 314 as a value: \<open>Inl\<close> the message of the error
  caught at line 339 (\<open>err instanceof Error ? err.message : "An unknown error occurred."\<close>),
  \<open>Inr\<close> the \<open>result.messages\<close> that passed the check of line 312.
\<close>

fun tryFetch :: "fetch_outcome \<Rightarrow> string + N8nMessage list" where
  "tryFetch (Rejected (Some m)) = Inl m"
| "tryFetch (Rejected None) = Inl ''An unknown error occurred.''"
| "tryFetch (NotOk statusText) = Inl (''Network response was not ok: '' @ statusText)"
| "tryFetch (Parsed None) = Inl ''Invalid response structure from n8n''"
| "tryFetch (Parsed (Some result)) = Inr result"

text \<open>
  Line 329: \<open>result.messages[0]?.content.substring(0, 30) + "..." || "New Chat"\<close>.
  \<open>+\<close> binds tighter than \<open>||\<close>; the optional chain gives \<open>undefined\<close> on an empty
  array, and \<open>undefined + "..."\<close> is the string \<open>"undefined..."\<close>.
\<close>

definition newTitle :: "N8nMessage list \<Rightarrow> string" where
  "newTitle result =
     js_or ((case result of [] \<Rightarrow> ''undefined'' | m # _ \<Rightarrow> take 30 (content m)) @ ''...'')
           ''New Chat''"

text \<open>
  The updater passed to \<open>setConversationHistory\<close> (lines 318 to 338), with the
  \<open>setActiveConversationId\<close> it calls. \<open>active\<close> is the closure's
  \<open>activeConversationId\<close>, \<open>newConvId\<close> the value of \<open>nanoid()\<close>.
\<close>

definition upsert :: "string option \<Rightarrow> string \<Rightarrow> N8nMessage list \<Rightarrow> App \<Rightarrow> App" where
  "upsert active newConvId result s =
     (if truthy active
      then s\<lparr>conversationHistory :=
               map (\<lambda>conv. if Some (c_id conv) = active then conv\<lparr>c_messages := result\<rparr> else conv)
                 (conversationHistory s)\<rparr>
      else s\<lparr>conversationHistory :=
               \<lparr>c_id = newConvId, title = newTitle result, c_messages = result\<rparr>
                 # conversationHistory s,
             activeConversationId := Some newConvId\<rparr>)"

text \<open>
  \<open>handleSend\<close> after the \<open>await\<close> (lines 306 to 346), run on the state \<open>s\<close> current
  when the exchange ends.
\<close>

definition handleSend_settle :: "Pending \<Rightarrow> fetch_outcome \<Rightarrow> string \<Rightarrow> App \<Rightarrow> App" where
  "handleSend_settle p outcome newConvId s =
     (case tryFetch outcome of
        Inr result \<Rightarrow>
          (upsert (p_activeConversationId p) newConvId result (s\<lparr>messages := result\<rparr>))
            \<lparr>isLoading := False\<rparr>
      | Inl errorMessage \<Rightarrow>
          s\<lparr>error := Some (''Sorry, I had trouble connecting: '' @ errorMessage),
            messages := p_n8nMessageList p, isLoading := False\<rparr>)"

section \<open>The session: state, outstanding exchanges, events\<close>

record Session =
  app :: App
  outstanding :: "Pending list"

text \<open>
  A session is the state of \<open>App\<close> together with the exchanges that were sent and
  have not ended yet. Its events are the calls the user interface and the network make:
  \<open>Send uid messageContent\<close> is \<open>handleSend(messageContent)\<close> (a suggestion chip, or
  any caller), \<open>Submit uid\<close> is \<open>handleSubmit\<close>, which passes the input text,
  \<open>Load\<close>, \<open>NewChat\<close> and \<open>ToggleSidebar\<close> are \<open>loadConversation\<close>,
  \<open>startNewConversation\<close> and \<open>toggleSidebar\<close>, \<open>SetText\<close> is the \<open>onChange\<close> of
  the input, and \<open>Response i outcome newConvId\<close> is the end of the \<open>i\<close>-th outstanding
  exchange, \<open>newConvId\<close> being the value \<open>nanoid()\<close> returns if it is called. Each
  handler runs on the state of the latest render, and the effect, when it is due, runs
  before the next event.
\<close>

datatype event =
    Send string string
  | Submit string
  | Load string
  | NewChat
  | ToggleSidebar
  | SetText string
  | Response nat fetch_outcome string

text \<open>
  The effect runs after a render in which one of its dependencies changed: the id by
  value, the array by reference. Only \<open>setConversationHistory\<close> replaces the array,
  and it always builds a new one.
\<close>

definition afterRender :: "App \<Rightarrow> App \<Rightarrow> App" where
  "afterRender old new =
     (if activeConversationId new \<noteq> activeConversationId old then syncEffect new else new)"

definition send :: "string \<Rightarrow> string \<Rightarrow> string \<Rightarrow> Session \<Rightarrow> Session" where
  "send api uid messageContent sys =
     (case handleSend api uid messageContent (app sys) of
        (s', None) \<Rightarrow> sys\<lparr>app := s'\<rparr>
      | (s', Some p) \<Rightarrow> sys\<lparr>app := s', outstanding := outstanding sys @ [p]\<rparr>)"

fun step :: "string \<Rightarrow> event \<Rightarrow> Session \<Rightarrow> Session" where
  "step api (Send uid messageContent) sys = send api uid messageContent sys"
| "step api (Submit uid) sys = send api uid (inputText (app sys)) sys"
| "step api (Load convId) sys =
     sys\<lparr>app := afterRender (app sys) (loadConversation convId (app sys))\<rparr>"
| "step api NewChat sys =
     sys\<lparr>app := afterRender (app sys) (startNewConversation (app sys))\<rparr>"
| "step api ToggleSidebar sys = sys\<lparr>app := toggleSidebar (app sys)\<rparr>"
| "step api (SetText t) sys = sys\<lparr>app := (app sys)\<lparr>inputText := t\<rparr>\<rparr>"
| "step api (Response i outcome newConvId) sys =
     (if i < length (outstanding sys)
      then let p = outstanding sys ! i;
               s' = handleSend_settle p outcome newConvId (app sys)
           in \<lparr>app = (case tryFetch outcome of Inr result \<Rightarrow> syncEffect s' | Inl e \<Rightarrow> s'),
               outstanding = take i (outstanding sys) @ drop (Suc i) (outstanding sys)\<rparr>
      else sys)"

definition run :: "string \<Rightarrow> event list \<Rightarrow> Session \<Rightarrow> Session" where
  "run api evs sys = foldl (\<lambda>s e. step api e s) sys evs"

definition start :: Session where
  "start = \<lparr>app = initial, outstanding = []\<rparr>"


text \<open>
  An event brings no placeholder turn into the session: the body of a settled exchange
  does not contain \<open>loadingMessage\<close>.
\<close>

fun placeholderFree :: "event \<Rightarrow> bool" where
  "placeholderFree (Response i (Parsed (Some result)) newConvId) = (loadingMessage \<notin> set result)"
| "placeholderFree ev = True"

text \<open>
  Concrete data for the examples: a configured endpoint, and the session reached from
  \<open>start\<close> by two exchanges, whose store holds the conversations \<open>A\<close> (active) and
  \<open>B\<close>, in this order.
\<close>

abbreviation demo_api :: string where
  "demo_api \<equiv> ''https://n8n.example/webhook/chat''"

definition demo_two :: Session where
  "demo_two = run demo_api
     [Send ''u1'' ''first'',
      Response 0 (Parsed (Some [\<lparr>msg_id = ''u1'', role = User, content = ''first''\<rparr>,
                                \<lparr>msg_id = ''r1'', role = Assistant, content = ''one''\<rparr>])) ''B'',
      NewChat,
      Send ''u2'' ''second'',
      Response 0 (Parsed (Some [\<lparr>msg_id = ''u2'', role = User, content = ''second''\<rparr>,
                                \<lparr>msg_id = ''r2'', role = Assistant, content = ''two''\<rparr>])) ''A'']
     start"

text \<open>
  Two invariants of the session. \<open>tracked\<close>: at most one exchange is outstanding, and
  the in-flight flag is set while one is. \<open>storeClean\<close>: no stored conversation holds
  the placeholder turn.
\<close>

definition tracked :: "Session \<Rightarrow> bool" where
  "tracked sys = (length (outstanding sys) \<le> 1 \<and> (outstanding sys \<noteq> [] \<longrightarrow> isLoading (app sys)))"

definition storeClean :: "Session \<Rightarrow> bool" where
  "storeClean sys = (\<forall>c\<in>set (conversationHistory (app sys)). loadingMessage \<notin> set (c_messages c))"

text \<open>
  A run in which \<open>startNewConversation\<close>, which clears the in-flight flag, is never
  called while an exchange is outstanding.
\<close>

fun noResetInFlight :: "string \<Rightarrow> event list \<Rightarrow> Session \<Rightarrow> bool" where
  "noResetInFlight api [] sys = True"
| "noResetInFlight api (ev # evs) sys =
     ((ev = NewChat \<longrightarrow> outstanding sys = []) \<and> noResetInFlight api evs (step api ev sys))"

section \<open>Auxiliary facts\<close>

lemmas model_defs = run_def send_def handleSend_def handleSend_settle_def upsert_def syncEffect_def
  afterRender_def loadConversation_def startNewConversation_def toggleSidebar_def currentMessages_def
  truthy_def trim_def isWhiteSpace_def notConfigured_def newTitle_def js_or_def start_def initial_def
  loadingMessage_def N8N_CHAT_API_def Let_def

lemma trim_Nil_iff: "trim s = [] \<longleftrightarrow> (\<forall>c\<in>set s. isWhiteSpace c)"
proof -
  have "set s = set (takeWhile isWhiteSpace s) \<union> set (dropWhile isWhiteSpace s)"
    by (metis set_append takeWhile_dropWhile_id)
  moreover have "\<forall>c\<in>set (takeWhile isWhiteSpace s). isWhiteSpace c"
    by (auto dest: set_takeWhileD)
  ultimately show ?thesis
    by (auto simp: trim_def dropWhile_eq_Nil_conv)
qed

lemma find_first:
  "xs = pre @ x # post \<Longrightarrow> P x \<Longrightarrow> \<forall>y\<in>set pre. \<not> P y \<Longrightarrow> find P xs = Some x"
  by (induction pre arbitrary: xs) auto

lemma find_no_match: "\<forall>y\<in>set xs. \<not> P y \<Longrightarrow> find P xs = None"
  by (simp add: find_None_iff)

lemma find_map_same_id:
  "(\<And>c. c_id (f c) = c_id c) \<Longrightarrow>
   find (\<lambda>c. c_id c = b) (map f xs) = map_option f (find (\<lambda>c. c_id c = b) xs)"
  by (induction xs) auto

lemma find_Some_id: "find (\<lambda>c. c_id c = b) xs = Some conv \<Longrightarrow> c_id conv = b"
  by (induction xs) (auto split: if_splits)

lemma syncEffect_store [simp]: "conversationHistory (syncEffect s) = conversationHistory s"
  by (simp add: syncEffect_def split: option.splits)

lemma syncEffect_active [simp]: "activeConversationId (syncEffect s) = activeConversationId s"
  by (simp add: syncEffect_def split: option.splits)

lemma syncEffect_isLoading [simp]: "isLoading (syncEffect s) = isLoading s"
  by (simp add: syncEffect_def split: option.splits)

lemma syncEffect_error [simp]: "error (syncEffect s) = error s"
  by (simp add: syncEffect_def split: option.splits)

lemma settle_success:
  "handleSend_settle p (Parsed (Some result)) newConvId s =
     (upsert (p_activeConversationId p) newConvId result (s\<lparr>messages := result\<rparr>))\<lparr>isLoading := False\<rparr>"
  by (simp add: handleSend_settle_def)


lemma step_success:
  "i < length (outstanding sys) \<Longrightarrow>
   app (step api (Response i (Parsed (Some result)) newConvId) sys) =
     syncEffect (handleSend_settle (outstanding sys ! i) (Parsed (Some result)) newConvId (app sys))"
  by (simp add: Let_def)


lemma run_Nil [simp]: "run api [] sys = sys"
  by (simp add: run_def)

lemma run_Cons [simp]: "run api (ev # evs) sys = run api evs (step api ev sys)"
  by (simp add: run_def)

lemma handleSend_accepted:
  "trim messageContent \<noteq> [] \<Longrightarrow> \<not> isLoading s \<Longrightarrow> \<not> notConfigured api \<Longrightarrow>
   handleSend api uid messageContent s =
     (s\<lparr>hasInteracted := True, error := None, inputText := [],
        messages := messages s @ [\<lparr>msg_id = uid, role = User, content = messageContent\<rparr>, loadingMessage],
        isLoading := True\<rparr>,
      Some \<lparr>p_activeConversationId = activeConversationId s,
            p_n8nMessageList = currentMessages s @ [\<lparr>msg_id = uid, role = User, content = messageContent\<rparr>]\<rparr>)"
  by (simp add: handleSend_def Let_def)


lemma handleSend_rejected:
  "trim messageContent = [] \<or> isLoading s \<Longrightarrow> handleSend api uid messageContent s = (s, None)"
  by (simp add: handleSend_def)



lemma demo_two_value:
  "demo_two =
     \<lparr>app = \<lparr>messages = [\<lparr>msg_id = ''u2'', role = User, content = ''second''\<rparr>,
                         \<lparr>msg_id = ''r2'', role = Assistant, content = ''two''\<rparr>],
        inputText = [], isLoading = False, error = None, isSidebarOpen = False,
        hasInteracted = True,
        conversationHistory =
          [\<lparr>c_id = ''A'', title = ''second...'',
             c_messages = [\<lparr>msg_id = ''u2'', role = User, content = ''second''\<rparr>,
                           \<lparr>msg_id = ''r2'', role = Assistant, content = ''two''\<rparr>]\<rparr>,
           \<lparr>c_id = ''B'', title = ''first...'',
             c_messages = [\<lparr>msg_id = ''u1'', role = User, content = ''first''\<rparr>,
                           \<lparr>msg_id = ''r1'', role = Assistant, content = ''one''\<rparr>]\<rparr>],
        activeConversationId = Some ''A''\<rparr>,
      outstanding = []\<rparr>"
  by (simp add: demo_two_def model_defs)



lemma send_tracked: "tracked sys \<Longrightarrow> tracked (send api uid messageContent sys)"
  by (auto simp: tracked_def send_def handleSend_def Let_def)

lemma step_tracked:
  assumes "tracked sys" and "ev = NewChat \<longrightarrow> outstanding sys = []"
  shows "tracked (step api ev sys)"
proof (cases ev)
  case (Send uid messageContent)
  with assms show ?thesis by (simp add: send_tracked)
next
  case (Submit uid)
  with assms show ?thesis by (simp add: send_tracked)
next
  case (Load convId)
  with assms show ?thesis
    by (simp add: tracked_def afterRender_def loadConversation_def)
next
  case NewChat
  with assms show ?thesis by (simp add: tracked_def)
next
  case ToggleSidebar
  with assms show ?thesis by (simp add: tracked_def toggleSidebar_def)
next
  case (SetText t)
  with assms show ?thesis by (simp add: tracked_def)
next
  case (Response i outcome newConvId)
  with assms show ?thesis
    by (auto simp: tracked_def Let_def)
qed

lemma run_tracked:
  "tracked sys \<Longrightarrow> noResetInFlight api evs sys \<Longrightarrow> tracked (run api evs sys)"
proof (induction evs arbitrary: sys)
  case Nil
  then show ?case by simp
next
  case (Cons ev evs)
  then show ?case using step_tracked[of sys ev api] by auto
qed

lemma start_tracked: "tracked start"
  by (simp add: tracked_def start_def)

lemma send_store: "conversationHistory (app (send api uid messageContent sys)) = conversationHistory (app sys)"
  by (simp add: send_def handleSend_def Let_def)

lemma upsert_clean:
  assumes "\<forall>c\<in>set (conversationHistory s). loadingMessage \<notin> set (c_messages c)"
    and "loadingMessage \<notin> set result"
  shows "\<forall>c\<in>set (conversationHistory (upsert active newConvId result s)).
           loadingMessage \<notin> set (c_messages c)"
  using assms by (auto simp: upsert_def)

lemma settle_store:
  "conversationHistory (handleSend_settle p outcome newConvId s) =
     (case tryFetch outcome of
        Inl e \<Rightarrow> conversationHistory s
      | Inr result \<Rightarrow> conversationHistory (upsert (p_activeConversationId p) newConvId result s))"
  by (simp add: handleSend_settle_def upsert_def split: sum.splits)

lemma step_storeClean:
  assumes "storeClean sys" and "placeholderFree ev"
  shows "storeClean (step api ev sys)"
proof (cases ev)
  case (Response i outcome newConvId)
  show ?thesis
  proof (cases "tryFetch outcome")
    case (Inl e)
    with Response assms show ?thesis
      by (simp add: storeClean_def Let_def settle_store)
  next
    case (Inr result)
    then have outcome: "outcome = Parsed (Some result)"
      by (cases outcome rule: tryFetch.cases) simp_all
    with assms Response have "loadingMessage \<notin> set result" by simp
    with assms(1) have "\<forall>c\<in>set (conversationHistory
        (upsert (p_activeConversationId (outstanding sys ! i)) newConvId result (app sys))).
           loadingMessage \<notin> set (c_messages c)"
      unfolding storeClean_def by (rule upsert_clean)
    with Response Inr assms(1) show ?thesis
      by (simp add: storeClean_def Let_def settle_store)
  qed
qed (use assms in \<open>simp_all add: storeClean_def send_store afterRender_def loadConversation_def
      startNewConversation_def toggleSidebar_def\<close>)

lemma run_storeClean:
  "storeClean sys \<Longrightarrow> \<forall>ev\<in>set evs. placeholderFree ev \<Longrightarrow> storeClean (run api evs sys)"
proof (induction evs arbitrary: sys)
  case Nil
  then show ?case by simp
next
  case (Cons ev evs)
  then show ?case using step_storeClean[of sys ev api] by auto
qed

lemma newTitle_never_default: "newTitle result \<noteq> ''New Chat''"
proof -
  obtain x where "newTitle result = x @ ''...''"
    by (simp add: newTitle_def js_or_def)
  then have "last (newTitle result) = CHR ''.''" by simp
  then show ?thesis by auto
qed

section \<open>The claims\<close>

subsection \<open>C1: a response is reconciled into the conversation it was sent from\<close>

text \<open>
  Claim C1. A submission is started while conversation \<open>a\<close> is active; the user then
  selects conversation \<open>b\<close>, which has an entry in the store; then the exchange ends in
  success. The store update uses the id of the closure, \<open>a\<close>: the new store is the old
  one with the messages of the entries of id \<open>a\<close> replaced by the returned sequence, the
  entry of \<open>b\<close> is the same as before, \<open>b\<close> stays active, and the visible log, which
  was the log of \<open>b\<close> since the selection, is the log of \<open>b\<close> afterwards. Line 316
  writes the returned sequence into \<open>messages\<close> first; the effect that the store update
  triggers reads the log of \<open>b\<close> back, and the statement is about the state after it.
\<close>

theorem C1_reconciles_snapshot_id:
  assumes "activeConversationId (app sys) = Some a" and "a \<noteq> []" and "b \<noteq> []" and "b \<noteq> a"
    and "trim messageContent \<noteq> []" and "\<not> isLoading (app sys)" and "\<not> notConfigured api"
    and "find (\<lambda>c. c_id c = b) (conversationHistory (app sys)) = Some convB"
  shows "conversationHistory (app (run api
            [Send uid messageContent, Load b,
             Response (length (outstanding sys)) (Parsed (Some result)) newConvId] sys))
           = map (\<lambda>conv. if c_id conv = a then conv\<lparr>c_messages := result\<rparr> else conv)
               (conversationHistory (app sys))
     \<and> find (\<lambda>c. c_id c = b) (conversationHistory (app (run api
            [Send uid messageContent, Load b,
             Response (length (outstanding sys)) (Parsed (Some result)) newConvId] sys)))
           = Some convB
     \<and> messages (app (run api [Send uid messageContent, Load b] sys)) = c_messages convB
     \<and> messages (app (run api
            [Send uid messageContent, Load b,
             Response (length (outstanding sys)) (Parsed (Some result)) newConvId] sys))
           = messages (app (run api [Send uid messageContent, Load b] sys))
     \<and> activeConversationId (app (run api
            [Send uid messageContent, Load b,
             Response (length (outstanding sys)) (Parsed (Some result)) newConvId] sys))
           = Some b"
proof -
  let ?user = "\<lparr>msg_id = uid, role = User, content = messageContent\<rparr>"
  let ?p = "\<lparr>p_activeConversationId = Some a,
             p_n8nMessageList = currentMessages (app sys) @ [?user]\<rparr>"
  let ?f = "\<lambda>conv. if c_id conv = a then conv\<lparr>c_messages := result\<rparr> else conv"
  define sys1 where "sys1 = step api (Send uid messageContent) sys"
  define sys2 where "sys2 = step api (Load b) sys1"
  define sys3 where
    "sys3 = step api (Response (length (outstanding sys)) (Parsed (Some result)) newConvId) sys2"
  have idB: "c_id convB = b"
    using assms(8) by (rule find_Some_id)
  have out1: "outstanding sys1 = outstanding sys @ [?p]"
    and store1: "conversationHistory (app sys1) = conversationHistory (app sys)"
    and active1: "activeConversationId (app sys1) = Some a"
    using assms by (simp_all add: sys1_def send_def handleSend_accepted)
  have out2: "outstanding sys2 = outstanding sys @ [?p]"
    and store2: "conversationHistory (app sys2) = conversationHistory (app sys)"
    and active2: "activeConversationId (app sys2) = Some b"
    using out1 store1
    by (simp_all add: sys2_def afterRender_def loadConversation_def)
  have msgs2: "messages (app sys2) = c_messages convB"
    using assms(2-4,8) active1 store1
    by (simp add: sys2_def afterRender_def loadConversation_def syncEffect_def truthy_def)
  have pick: "outstanding sys2 ! length (outstanding sys) = ?p"
    and inrange: "length (outstanding sys) < length (outstanding sys2)"
    by (simp_all add: out2)
  let ?s' = "handleSend_settle ?p (Parsed (Some result)) newConvId (app sys2)"
  have app3: "app sys3 = syncEffect ?s'"
    unfolding sys3_def using step_success[OF inrange] pick by simp
  have store': "conversationHistory ?s' = map ?f (conversationHistory (app sys))"
    using assms(2) store2 by (simp add: settle_success upsert_def truthy_def)
  have active': "activeConversationId ?s' = Some b"
    using assms(2) active2 by (simp add: settle_success upsert_def truthy_def)
  have "find (\<lambda>c. c_id c = b) (map ?f (conversationHistory (app sys)))
          = map_option ?f (find (\<lambda>c. c_id c = b) (conversationHistory (app sys)))"
    by (rule find_map_same_id) simp
  then have foundB: "find (\<lambda>c. c_id c = b) (map ?f (conversationHistory (app sys))) = Some convB"
    using assms(4,8) idB by simp
  have store3: "conversationHistory (app sys3) = map ?f (conversationHistory (app sys))"
    by (simp add: app3 store')
  have active3: "activeConversationId (app sys3) = Some b"
    by (simp add: app3 active')
  have msgs3: "messages (app sys3) = c_messages convB"
    using assms(3) foundB by (simp add: app3 syncEffect_def active' store' truthy_def)
  have r2: "run api [Send uid messageContent, Load b] sys = sys2"
    by (simp add: sys2_def sys1_def)
  have r3: "run api [Send uid messageContent, Load b,
             Response (length (outstanding sys)) (Parsed (Some result)) newConvId] sys = sys3"
    by (simp add: sys3_def sys2_def sys1_def del: step.simps)
  show ?thesis
    unfolding r2 r3 using store3 foundB msgs2 msgs3 active3 by simp
qed

text \<open>In \<open>demo_two\<close>: submit in \<open>A\<close>, select \<open>B\<close>, then the response arrives.\<close>

theorem C1_reconciles_snapshot_id_witness:
  "activeConversationId (app demo_two) = Some ''A'' \<and> ''A'' \<noteq> [] \<and> ''B'' \<noteq> [] \<and> ''B'' \<noteq> ''A''
   \<and> trim ''more'' \<noteq> [] \<and> \<not> isLoading (app demo_two) \<and> \<not> notConfigured demo_api
   \<and> find (\<lambda>c. c_id c = ''B'') (conversationHistory (app demo_two))
       = Some \<lparr>c_id = ''B'', title = ''first...'',
                c_messages = [\<lparr>msg_id = ''u1'', role = User, content = ''first''\<rparr>,
                              \<lparr>msg_id = ''r1'', role = Assistant, content = ''one''\<rparr>]\<rparr>
   \<and> conversationHistory (app (run demo_api
         [Send ''u3'' ''more'', Load ''B'',
          Response 0 (Parsed (Some [\<lparr>msg_id = ''r3'', role = Assistant, content = ''three''\<rparr>])) ''n3'']
         demo_two))
       = [\<lparr>c_id = ''A'', title = ''second...'',
            c_messages = [\<lparr>msg_id = ''r3'', role = Assistant, content = ''three''\<rparr>]\<rparr>,
          \<lparr>c_id = ''B'', title = ''first...'',
            c_messages = [\<lparr>msg_id = ''u1'', role = User, content = ''first''\<rparr>,
                          \<lparr>msg_id = ''r1'', role = Assistant, content = ''one''\<rparr>]\<rparr>]
   \<and> messages (app (run demo_api
         [Send ''u3'' ''more'', Load ''B'',
          Response 0 (Parsed (Some [\<lparr>msg_id = ''r3'', role = Assistant, content = ''three''\<rparr>])) ''n3'']
         demo_two))
       = [\<lparr>msg_id = ''u1'', role = User, content = ''first''\<rparr>,
          \<lparr>msg_id = ''r1'', role = Assistant, content = ''one''\<rparr>]"
  using C1_reconciles_snapshot_id [where sys = demo_two and a = "''A''" and b = "''B''"
      and messageContent = "''more''" and api = demo_api and uid = "''u3''"
      and convB = "\<lparr>c_id = ''B'', title = ''first...'',
         c_messages = [\<lparr>msg_id = ''u1'', role = User, content = ''first''\<rparr>,
                       \<lparr>msg_id = ''r1'', role = Assistant, content = ''one''\<rparr>]\<rparr>"
      and result = "[\<lparr>msg_id = ''r3'', role = Assistant, content = ''three''\<rparr>]"
      and newConvId = "''n3''"]
  by (simp add: demo_two_value model_defs)

subsection \<open>C2: every failure rolls the visible log back and leaves the store alone\<close>



subsection \<open>C3: the visible log after a success\<close>




subsection \<open>C4: what the guard of \<open>handleSend\<close> rejects\<close>

text \<open>
  Claim C4, as amended. A submission whose text is empty or consists of white space,
  and a submission made while the in-flight flag \<open>isLoading\<close> is set, changes nothing:
  the state is the same and no exchange is started; this holds for \<open>handleSend\<close>
  called directly and through the form. In every run from the initial state in which
  \<open>startNewConversation\<close> was never called while an exchange was outstanding, the flag
  is set whenever an exchange is outstanding, so there a submission attempted while
  another is outstanding is such a no-op.
\<close>

theorem C4_guard_rejects:
  "((\<forall>c\<in>set messageContent. isWhiteSpace c) \<or> isLoading (app sys) \<longrightarrow>
      step api (Send uid messageContent) sys = sys)
   \<and> ((\<forall>c\<in>set (inputText (app sys)). isWhiteSpace c) \<or> isLoading (app sys) \<longrightarrow>
      step api (Submit uid) sys = sys)
   \<and> (noResetInFlight api evs start \<and> outstanding (run api evs start) \<noteq> [] \<longrightarrow>
      step api (Send uid messageContent) (run api evs start) = run api evs start)"
proof -
  have guard: "step api (Send u m) t = t"
    if "(\<forall>c\<in>set m. isWhiteSpace c) \<or> isLoading (app t)" for u m t
  proof -
    from that have "trim m = [] \<or> isLoading (app t)"
      by (simp add: trim_Nil_iff)
    then show ?thesis
      by (simp add: send_def handleSend_rejected)
  qed
  have submit: "step api (Submit uid) sys = step api (Send uid (inputText (app sys))) sys"
    by simp
  have flag: "isLoading (app (run api evs start))"
    if "noResetInFlight api evs start" and "outstanding (run api evs start) \<noteq> []"
    using run_tracked[OF start_tracked that(1)] that(2) by (simp add: tracked_def)
  have blank: "(\<forall>c\<in>set messageContent. isWhiteSpace c) \<or> isLoading (app sys) \<longrightarrow>
      step api (Send uid messageContent) sys = sys"
    using guard by blast
  have form: "(\<forall>c\<in>set (inputText (app sys)). isWhiteSpace c) \<or> isLoading (app sys) \<longrightarrow>
      step api (Submit uid) sys = sys"
    unfolding submit using guard by blast
  have busy: "noResetInFlight api evs start \<and> outstanding (run api evs start) \<noteq> [] \<longrightarrow>
      step api (Send uid messageContent) (run api evs start) = run api evs start"
    using guard flag by blast
  from blank form busy show ?thesis by blast
qed

text \<open>
  A blank text; a second submission in \<open>demo_two\<close> while the first is in flight; and
  a run that starts a new conversation before, not during, the exchange.
\<close>

theorem C4_guard_rejects_witness:
  "isWhiteSpace CHR '' '' \<and> isWhiteSpace CHR 0x09
   \<and> isLoading (app (step demo_api (Send ''u3'' ''more'') demo_two))
   \<and> outstanding start = []
   \<and> outstanding (run demo_api [NewChat, Send ''u1'' ''first'', Load ''B''] start) \<noteq> []
   \<and> step demo_api (Send ''u3'' [CHR '' '', CHR 0x09]) demo_two = demo_two
   \<and> step demo_api (Send ''u4'' ''again'') (step demo_api (Send ''u3'' ''more'') demo_two)
       = step demo_api (Send ''u3'' ''more'') demo_two
   \<and> step demo_api (Send ''u2'' ''second'')
         (run demo_api [NewChat, Send ''u1'' ''first'', Load ''B''] start)
       = run demo_api [NewChat, Send ''u1'' ''first'', Load ''B''] start"
  using C4_guard_rejects [where messageContent = "[CHR '' '', CHR 0x09]" and sys = demo_two
      and api = demo_api and uid = "''u3''"]
    C4_guard_rejects [where messageContent = "''again''"
      and sys = "step demo_api (Send ''u3'' ''more'') demo_two" and api = demo_api and uid = "''u4''"]
    C4_guard_rejects [where messageContent = "''second''" and evs = "[NewChat, Send ''u1'' ''first'', Load ''B'']"
      and api = demo_api and uid = "''u2''"]
  by (simp add: demo_two_value model_defs)

text \<open>
  The claim as stated fails: \<open>startNewConversation\<close> clears \<open>isLoading\<close> (line 245)
  and nothing cancels the exchange. After it, a second submission is accepted while the
  first is still outstanding: a second request is sent and the visible log gets the new
  user turn and the placeholder.
\<close>

theorem C4_counterexample:
  "outstanding (run demo_api [Send ''u1'' ''first'', NewChat] start)
     = [\<lparr>p_activeConversationId = None,
          p_n8nMessageList = [\<lparr>msg_id = ''u1'', role = User, content = ''first''\<rparr>]\<rparr>]
   \<and> outstanding (step demo_api (Send ''u2'' ''second'')
        (run demo_api [Send ''u1'' ''first'', NewChat] start))
     = [\<lparr>p_activeConversationId = None,
          p_n8nMessageList = [\<lparr>msg_id = ''u1'', role = User, content = ''first''\<rparr>]\<rparr>,
        \<lparr>p_activeConversationId = None,
          p_n8nMessageList = [\<lparr>msg_id = ''u2'', role = User, content = ''second''\<rparr>]\<rparr>]
   \<and> messages (app (run demo_api [Send ''u1'' ''first'', NewChat] start)) = []
   \<and> messages (app (step demo_api (Send ''u2'' ''second'')
        (run demo_api [Send ''u1'' ''first'', NewChat] start)))
     = [\<lparr>msg_id = ''u2'', role = User, content = ''second''\<rparr>, loadingMessage]"
  by (simp add: model_defs)

subsection \<open>C5: the title of a new conversation\<close>

text \<open>
  Claim C5. The title is the first 30 characters of the first returned turn followed by
  \<open>"..."\<close>; the claim adds that it is the default \<open>"New Chat"\<close> when that content is
  empty or the first turn is missing. The code evaluated there: for an empty returned
  sequence the title is \<open>"undefined..."\<close>, for a first turn with empty content it is
  \<open>"..."\<close>. The operand of \<open>||\<close> always ends in \<open>"..."\<close>, so it is never falsy
  (\<open>newTitle_never_default\<close>).
\<close>

theorem C5_title_fallback_unreachable:
  "newTitle [] = ''undefined...''
   \<and> newTitle [\<lparr>msg_id = ''r1'', role = Assistant, content = ''''\<rparr>] = ''...''
   \<and> conversationHistory (app (run demo_api
        [Send ''u1'' ''first'', Response 0 (Parsed (Some [])) ''A''] start))
      = [\<lparr>c_id = ''A'', title = ''undefined...'', c_messages = []\<rparr>]
   \<and> conversationHistory (app (run demo_api
        [Send ''u1'' ''first'',
         Response 0 (Parsed (Some [\<lparr>msg_id = ''r1'', role = Assistant, content = ''''\<rparr>])) ''A''] start))
      = [\<lparr>c_id = ''A'', title = ''...'',
           c_messages = [\<lparr>msg_id = ''r1'', role = Assistant, content = ''''\<rparr>]\<rparr>]"
  by (simp add: model_defs)

subsection \<open>C6: a new conversation becomes one new entry at the front\<close>

text \<open>
  Claim C6. When an exchange whose snapshot of the active id is absent ends in success,
  the store is the old store with one new entry in front, whose id is the value
  \<open>nanoid()\<close> returned; that id becomes the active id. If the id is fresh for the
  store, exactly one entry carries it. The next submission snapshots that id and sends
  the returned sequence with the new user turn appended. The freshness of \<open>nanoid()\<close>
  is a property of that library and enters as a hypothesis.
\<close>

theorem C6_new_entry_at_front:
  assumes "i < length (outstanding sys)"
    and "p_activeConversationId (outstanding sys ! i) = None"
  shows "conversationHistory (app (step api (Response i (Parsed (Some result)) newConvId) sys))
           = \<lparr>c_id = newConvId, title = newTitle result, c_messages = result\<rparr>
               # conversationHistory (app sys)
     \<and> activeConversationId (app (step api (Response i (Parsed (Some result)) newConvId) sys))
           = Some newConvId
     \<and> ((\<forall>c\<in>set (conversationHistory (app sys)). c_id c \<noteq> newConvId) \<longrightarrow>
          length (filter (\<lambda>c. c_id c = newConvId)
            (conversationHistory (app (step api (Response i (Parsed (Some result)) newConvId) sys)))) = 1)
     \<and> (newConvId \<noteq> [] \<and> trim messageContent \<noteq> [] \<and> \<not> notConfigured api \<longrightarrow>
          snd (handleSend api uid messageContent
                 (app (step api (Response i (Parsed (Some result)) newConvId) sys)))
            = Some \<lparr>p_activeConversationId = Some newConvId,
                    p_n8nMessageList = result @ [\<lparr>msg_id = uid, role = User, content = messageContent\<rparr>]\<rparr>)"
proof -
  let ?s' = "app (step api (Response i (Parsed (Some result)) newConvId) sys)"
  have store: "conversationHistory ?s' = \<lparr>c_id = newConvId, title = newTitle result, c_messages = result\<rparr>
               # conversationHistory (app sys)"
    using assms by (simp add: step_success settle_success upsert_def truthy_def)
  have active: "activeConversationId ?s' = Some newConvId"
    using assms by (simp add: step_success settle_success upsert_def truthy_def)
  have idle: "\<not> isLoading ?s'"
    using assms by (simp add: step_success settle_success upsert_def truthy_def)
  have one: "(\<forall>c\<in>set (conversationHistory (app sys)). c_id c \<noteq> newConvId) \<longrightarrow>
          length (filter (\<lambda>c. c_id c = newConvId) (conversationHistory ?s')) = 1"
    unfolding store by (auto simp: filter_empty_conv)
  have base: "newConvId \<noteq> [] \<longrightarrow> currentMessages ?s' = result"
    by (simp add: currentMessages_def store active truthy_def del: step.simps)
  have nxt: "newConvId \<noteq> [] \<and> trim messageContent \<noteq> [] \<and> \<not> notConfigured api \<longrightarrow>
          snd (handleSend api uid messageContent ?s')
            = Some \<lparr>p_activeConversationId = Some newConvId,
                    p_n8nMessageList = result @ [\<lparr>msg_id = uid, role = User, content = messageContent\<rparr>]\<rparr>"
    using idle base active by (simp add: handleSend_def Let_def del: step.simps)
  from store active one nxt show ?thesis by blast
qed

text \<open>
  In \<open>demo_two\<close>, after \<open>New Chat\<close>, a successful exchange adds the entry \<open>C\<close>
  in front of \<open>A\<close> and \<open>B\<close>, and the next submission is made in \<open>C\<close>.
\<close>

theorem C6_new_entry_at_front_witness:
  "0 < length (outstanding (run demo_api [NewChat, Send ''u3'' ''third''] demo_two))
   \<and> p_activeConversationId (outstanding (run demo_api [NewChat, Send ''u3'' ''third''] demo_two) ! 0) = None
   \<and> map c_id (conversationHistory (app (run demo_api [NewChat, Send ''u3'' ''third''] demo_two)))
       = [''A'', ''B'']
   \<and> ''C'' \<noteq> [] \<and> trim ''fourth'' \<noteq> [] \<and> \<not> notConfigured demo_api
   \<and> map c_id (conversationHistory (app (step demo_api
         (Response 0 (Parsed (Some [\<lparr>msg_id = ''r3'', role = Assistant, content = ''three''\<rparr>])) ''C'')
         (run demo_api [NewChat, Send ''u3'' ''third''] demo_two))))
      = [''C'', ''A'', ''B'']
   \<and> activeConversationId (app (step demo_api
         (Response 0 (Parsed (Some [\<lparr>msg_id = ''r3'', role = Assistant, content = ''three''\<rparr>])) ''C'')
         (run demo_api [NewChat, Send ''u3'' ''third''] demo_two)))
      = Some ''C''
   \<and> snd (handleSend demo_api ''u4'' ''fourth'' (app (step demo_api
         (Response 0 (Parsed (Some [\<lparr>msg_id = ''r3'', role = Assistant, content = ''three''\<rparr>])) ''C'')
         (run demo_api [NewChat, Send ''u3'' ''third''] demo_two))))
      = Some \<lparr>p_activeConversationId = Some ''C'',
              p_n8nMessageList = [\<lparr>msg_id = ''r3'', role = Assistant, content = ''three''\<rparr>,
                                  \<lparr>msg_id = ''u4'', role = User, content = ''fourth''\<rparr>]\<rparr>"
  using C6_new_entry_at_front [where i = 0
      and sys = "run demo_api [NewChat, Send ''u3'' ''third''] demo_two" and api = demo_api
      and result = "[\<lparr>msg_id = ''r3'', role = Assistant, content = ''three''\<rparr>]"
      and newConvId = "''C''" and messageContent = "''fourth''" and uid = "''u4''"]
  by (simp add: demo_two_value model_defs)

subsection \<open>C7: the base log captured by a submission\<close>

text \<open>
  Claim C7, as amended. The base log captured at the start of a submission is: the
  messages of the first store entry whose id is the active id, when that id is present
  and matches; the empty log when the active id is present and matches no entry; and the
  current visible log when the active id is absent. The request sent carries that base
  log with the user turn appended.
\<close>

theorem C7_base_log:
  "(activeConversationId s = Some a \<and> a \<noteq> [] \<and> conversationHistory s = pre @ conv # post
      \<and> c_id conv = a \<and> (\<forall>c\<in>set pre. c_id c \<noteq> a)
     \<longrightarrow> currentMessages s = c_messages conv)
   \<and> (activeConversationId s = Some a \<and> a \<noteq> []
      \<and> (\<forall>c\<in>set (conversationHistory s). c_id c \<noteq> a)
     \<longrightarrow> currentMessages s = [])
   \<and> (activeConversationId s = None \<longrightarrow> currentMessages s = messages s)
   \<and> (trim messageContent \<noteq> [] \<and> \<not> isLoading s \<and> \<not> notConfigured api
     \<longrightarrow> snd (handleSend api uid messageContent s)
           = Some \<lparr>p_activeConversationId = activeConversationId s,
                   p_n8nMessageList = currentMessages s
                     @ [\<lparr>msg_id = uid, role = User, content = messageContent\<rparr>]\<rparr>)"
proof -
  have matched: "currentMessages s = c_messages conv"
    if "activeConversationId s = Some a" and "a \<noteq> []"
      and "conversationHistory s = pre @ conv # post" and "c_id conv = a"
      and "\<forall>c\<in>set pre. c_id c \<noteq> a"
  proof -
    have "find (\<lambda>c. c_id c = a) (conversationHistory s) = Some conv"
      using that(3,4,5) by (intro find_first[of _ pre conv post]) auto
    with that(1,2) show ?thesis
      by (simp add: currentMessages_def truthy_def)
  qed
  have unmatched: "currentMessages s = []"
    if "activeConversationId s = Some a" and "a \<noteq> []"
      and "\<forall>c\<in>set (conversationHistory s). c_id c \<noteq> a"
  proof -
    have "find (\<lambda>c. c_id c = a) (conversationHistory s) = None"
      using that(3) by (intro find_no_match) auto
    with that(1,2) show ?thesis
      by (simp add: currentMessages_def truthy_def)
  qed
  have absent: "currentMessages s = messages s" if "activeConversationId s = None"
    using that by (simp add: currentMessages_def truthy_def)
  have sent: "snd (handleSend api uid messageContent s)
           = Some \<lparr>p_activeConversationId = activeConversationId s,
                   p_n8nMessageList = currentMessages s
                     @ [\<lparr>msg_id = uid, role = User, content = messageContent\<rparr>]\<rparr>"
    if "trim messageContent \<noteq> []" and "\<not> isLoading s" and "\<not> notConfigured api"
    using that by (simp add: handleSend_accepted)
  from matched unmatched absent sent show ?thesis by blast
qed

text \<open>
  In \<open>demo_two\<close> (active \<open>A\<close>), in the same state with an id that matches nothing,
  and in the state after a failed first submission of a new conversation.
\<close>

theorem C7_base_log_witness:
  "activeConversationId (app demo_two) = Some ''A'' \<and> ''A'' \<noteq> []
   \<and> conversationHistory (app demo_two) = [] @ hd (conversationHistory (app demo_two))
        # tl (conversationHistory (app demo_two))
   \<and> c_id (hd (conversationHistory (app demo_two))) = ''A''
   \<and> currentMessages (app demo_two)
       = [\<lparr>msg_id = ''u2'', role = User, content = ''second''\<rparr>,
          \<lparr>msg_id = ''r2'', role = Assistant, content = ''two''\<rparr>]
   \<and> activeConversationId (app (step demo_api (Load ''zzz'') demo_two)) = Some ''zzz''
   \<and> ''zzz'' \<noteq> []
   \<and> map c_id (conversationHistory (app (step demo_api (Load ''zzz'') demo_two)))
       = [''A'', ''B'']
   \<and> currentMessages (app (step demo_api (Load ''zzz'') demo_two)) = []
   \<and> activeConversationId (app (step demo_api (Response 0 (NotOk ''Bad Gateway'') ''n1'')
         (step demo_api (Send ''u1'' ''first'') start))) = None
   \<and> currentMessages (app (step demo_api (Response 0 (NotOk ''Bad Gateway'') ''n1'')
         (step demo_api (Send ''u1'' ''first'') start)))
       = [\<lparr>msg_id = ''u1'', role = User, content = ''first''\<rparr>]
   \<and> trim ''more'' \<noteq> [] \<and> \<not> isLoading (app demo_two) \<and> \<not> notConfigured demo_api
   \<and> snd (handleSend demo_api ''u3'' ''more'' (app demo_two))
       = Some \<lparr>p_activeConversationId = Some ''A'',
               p_n8nMessageList = [\<lparr>msg_id = ''u2'', role = User, content = ''second''\<rparr>,
                                   \<lparr>msg_id = ''r2'', role = Assistant, content = ''two''\<rparr>,
                                   \<lparr>msg_id = ''u3'', role = User, content = ''more''\<rparr>]\<rparr>"
  using C7_base_log [where s = "app demo_two" and a = "''A''" and pre = "[]"
      and conv = "hd (conversationHistory (app demo_two))"
      and post = "tl (conversationHistory (app demo_two))"
      and messageContent = "''more''" and api = demo_api and uid = "''u3''"]
    C7_base_log [where s = "app (step demo_api (Load ''zzz'') demo_two)" and a = "''zzz''"]
    C7_base_log [where s = "app (step demo_api (Response 0 (NotOk ''Bad Gateway'') ''n1'')
         (step demo_api (Send ''u1'' ''first'') start))"]
  by (simp add: demo_two_value model_defs)

text \<open>
  The claim as stated fails where the active id is absent: the ternary of line 277
  takes \<open>messages\<close>, the visible log, not the empty log. After a first submission that
  failed, the visible log holds its user turn, no conversation is active, and the next
  submission captures that log and sends both user turns.
\<close>

theorem C7_counterexample:
  "activeConversationId (app (run demo_api
      [Send ''u1'' ''first'', Response 0 (NotOk ''Bad Gateway'') ''n1''] start)) = None
   \<and> snd (handleSend demo_api ''u2'' ''again'' (app (run demo_api
      [Send ''u1'' ''first'', Response 0 (NotOk ''Bad Gateway'') ''n1''] start)))
     = Some \<lparr>p_activeConversationId = None,
             p_n8nMessageList = [\<lparr>msg_id = ''u1'', role = User, content = ''first''\<rparr>,
                                 \<lparr>msg_id = ''u2'', role = User, content = ''again''\<rparr>]\<rparr>
   \<and> currentMessages (app (run demo_api
      [Send ''u1'' ''first'', Response 0 (NotOk ''Bad Gateway'') ''n1''] start))
     = [\<lparr>msg_id = ''u1'', role = User, content = ''first''\<rparr>]
   \<and> currentMessages (app (run demo_api
      [Send ''u1'' ''first'', Response 0 (NotOk ''Bad Gateway'') ''n1''] start)) \<noteq> []"
  by (simp add: model_defs)

subsection \<open>C8: reconciling an existing conversation changes only its messages\<close>

text \<open>
  Claim C8. When an exchange whose snapshot of the active id is a (non-empty) id \<open>a\<close>
  ends in success, the store keeps its length, every entry keeps its id, its title and
  its position, every entry whose id is \<open>a\<close> gets the returned sequence as its
  messages, and every other entry is unchanged.
\<close>

theorem C8_existing_entry_frame:
  assumes "i < length (outstanding sys)"
    and "p_activeConversationId (outstanding sys ! i) = Some a" and "a \<noteq> []"
  shows "length (conversationHistory (app (step api (Response i (Parsed (Some result)) newConvId) sys)))
           = length (conversationHistory (app sys))
     \<and> (\<forall>k<length (conversationHistory (app sys)).
          c_id (conversationHistory (app (step api (Response i (Parsed (Some result)) newConvId) sys)) ! k)
            = c_id (conversationHistory (app sys) ! k)
        \<and> title (conversationHistory (app (step api (Response i (Parsed (Some result)) newConvId) sys)) ! k)
            = title (conversationHistory (app sys) ! k)
        \<and> (c_id (conversationHistory (app sys) ! k) = a \<longrightarrow>
             c_messages (conversationHistory (app (step api (Response i (Parsed (Some result)) newConvId) sys)) ! k)
               = result)
        \<and> (c_id (conversationHistory (app sys) ! k) \<noteq> a \<longrightarrow>
             conversationHistory (app (step api (Response i (Parsed (Some result)) newConvId) sys)) ! k
               = conversationHistory (app sys) ! k))"
proof -
  have "conversationHistory (app (step api (Response i (Parsed (Some result)) newConvId) sys))
          = map (\<lambda>conv. if c_id conv = a then conv\<lparr>c_messages := result\<rparr> else conv)
              (conversationHistory (app sys))"
    using assms by (simp add: step_success settle_success upsert_def truthy_def)
  then show ?thesis by simp
qed

text \<open>
  The exchange started in conversation \<open>A\<close> of \<open>demo_two\<close> replaces the messages
  of \<open>A\<close> and leaves its title, its place and the entry \<open>B\<close> alone.
\<close>

theorem C8_existing_entry_frame_witness:
  "0 < length (outstanding (step demo_api (Send ''u3'' ''more'') demo_two))
   \<and> p_activeConversationId (outstanding (step demo_api (Send ''u3'' ''more'') demo_two) ! 0) = Some ''A''
   \<and> ''A'' \<noteq> []
   \<and> conversationHistory (app (step demo_api
         (Response 0 (Parsed (Some [\<lparr>msg_id = ''r3'', role = Assistant, content = ''three''\<rparr>])) ''n3'')
         (step demo_api (Send ''u3'' ''more'') demo_two)))
      = [\<lparr>c_id = ''A'', title = ''second...'',
           c_messages = [\<lparr>msg_id = ''r3'', role = Assistant, content = ''three''\<rparr>]\<rparr>,
         \<lparr>c_id = ''B'', title = ''first...'',
           c_messages = [\<lparr>msg_id = ''u1'', role = User, content = ''first''\<rparr>,
                         \<lparr>msg_id = ''r1'', role = Assistant, content = ''one''\<rparr>]\<rparr>]"
  using C8_existing_entry_frame [where i = 0
      and sys = "step demo_api (Send ''u3'' ''more'') demo_two" and a = "''A''" and api = demo_api
      and result = "[\<lparr>msg_id = ''r3'', role = Assistant, content = ''three''\<rparr>]"
      and newConvId = "''n3''"]
  by (simp add: demo_two_value model_defs)

subsection \<open>C9: selecting an id that matches no entry\<close>

text \<open>
  Claim C9, as amended. Selecting a (non-empty) conversation id for which the store has
  no entry is not an error: the id becomes the active id, and the visible log, the error
  and the store stay as they were, because the effect of lines 185 to 194 calls
  \<open>setMessages\<close> only when \<open>find\<close> returns an entry. A submission started in that
  state captures an empty base log.
\<close>

theorem C9_select_unknown_id:
  assumes "\<forall>c\<in>set (conversationHistory (app sys)). c_id c \<noteq> convId" and "convId \<noteq> []"
  shows "messages (app (step api (Load convId) sys)) = messages (app sys)
     \<and> activeConversationId (app (step api (Load convId) sys)) = Some convId
     \<and> conversationHistory (app (step api (Load convId) sys)) = conversationHistory (app sys)
     \<and> error (app (step api (Load convId) sys)) = error (app sys)
     \<and> outstanding (step api (Load convId) sys) = outstanding sys
     \<and> currentMessages (app (step api (Load convId) sys)) = []"
proof -
  have none: "find (\<lambda>c. c_id c = convId) (conversationHistory (app sys)) = None"
    using assms(1) by (intro find_no_match) auto
  show ?thesis
  proof (cases "activeConversationId (app sys) = Some convId")
    case True
    with none assms(2) show ?thesis
      by (simp add: afterRender_def loadConversation_def currentMessages_def truthy_def)
  next
    case False
    with none assms(2) show ?thesis
      by (simp add: afterRender_def loadConversation_def syncEffect_def currentMessages_def
          truthy_def)
  qed
qed

text \<open>In \<open>demo_two\<close>, whose store holds \<open>A\<close> and \<open>B\<close>, select \<open>zzz\<close>.\<close>

theorem C9_select_unknown_id_witness:
  "map c_id (conversationHistory (app demo_two)) = [''A'', ''B''] \<and> ''zzz'' \<noteq> []
   \<and> messages (app (step demo_api (Load ''zzz'') demo_two))
       = [\<lparr>msg_id = ''u2'', role = User, content = ''second''\<rparr>,
          \<lparr>msg_id = ''r2'', role = Assistant, content = ''two''\<rparr>]
   \<and> activeConversationId (app (step demo_api (Load ''zzz'') demo_two)) = Some ''zzz''
   \<and> currentMessages (app (step demo_api (Load ''zzz'') demo_two)) = []"
  using C9_select_unknown_id [where sys = demo_two and convId = "''zzz''" and api = demo_api]
  by (simp add: demo_two_value model_defs)

text \<open>
  The claim as stated fails: after selecting an id with no entry in \<open>demo_two\<close>, the
  visible log is still the log of \<open>A\<close>, not the empty log.
\<close>

theorem C9_counterexample:
  "find (\<lambda>c. c_id c = ''zzz'') (conversationHistory (app demo_two)) = None
   \<and> messages (app (step demo_api (Load ''zzz'') demo_two))
       = [\<lparr>msg_id = ''u2'', role = User, content = ''second''\<rparr>,
          \<lparr>msg_id = ''r2'', role = Assistant, content = ''two''\<rparr>]
   \<and> messages (app (step demo_api (Load ''zzz'') demo_two)) \<noteq> []"
  by (simp add: demo_two_value model_defs)

subsection \<open>C10: the placeholder turn and the store\<close>

text \<open>
  Claim C10, as amended. In every state reached from the initial state by a run in
  which no returned sequence contains the placeholder turn, no stored conversation
  contains the placeholder turn: the store only ever receives returned sequences, never
  the optimistic log.
\<close>

theorem C10_store_has_no_placeholder:
  assumes "\<forall>ev\<in>set evs. placeholderFree ev"
  shows "\<forall>c\<in>set (conversationHistory (app (run api evs start))).
           loadingMessage \<notin> set (c_messages c)"
proof -
  have "storeClean start"
    by (simp add: storeClean_def start_def initial_def)
  then have "storeClean (run api evs start)"
    using assms by (rule run_storeClean)
  then show ?thesis
    by (simp add: storeClean_def)
qed

text \<open>
  A run with a failed exchange, a successful one, and a submission left in flight, the
  visible log then holding the placeholder.
\<close>

theorem C10_store_has_no_placeholder_witness:
  "placeholderFree (Send ''u1'' ''first'')
   \<and> placeholderFree (Response 0 (NotOk ''Bad Gateway'') ''n1'')
   \<and> placeholderFree (Send ''u2'' ''again'')
   \<and> placeholderFree
        (Response 0 (Parsed (Some [\<lparr>msg_id = ''r2'', role = Assistant, content = ''two''\<rparr>])) ''A'')
   \<and> placeholderFree (Send ''u3'' ''more'')
   \<and> loadingMessage \<in> set (messages (app (run demo_api
       [Send ''u1'' ''first'', Response 0 (NotOk ''Bad Gateway'') ''n1'',
        Send ''u2'' ''again'',
        Response 0 (Parsed (Some [\<lparr>msg_id = ''r2'', role = Assistant, content = ''two''\<rparr>])) ''A'',
        Send ''u3'' ''more''] start)))
   \<and> conversationHistory (app (run demo_api
       [Send ''u1'' ''first'', Response 0 (NotOk ''Bad Gateway'') ''n1'',
        Send ''u2'' ''again'',
        Response 0 (Parsed (Some [\<lparr>msg_id = ''r2'', role = Assistant, content = ''two''\<rparr>])) ''A'',
        Send ''u3'' ''more''] start))
       = [\<lparr>c_id = ''A'', title = ''two...'',
            c_messages = [\<lparr>msg_id = ''r2'', role = Assistant, content = ''two''\<rparr>]\<rparr>]
   \<and> loadingMessage \<notin> set (c_messages (hd (conversationHistory (app (run demo_api
       [Send ''u1'' ''first'', Response 0 (NotOk ''Bad Gateway'') ''n1'',
        Send ''u2'' ''again'',
        Response 0 (Parsed (Some [\<lparr>msg_id = ''r2'', role = Assistant, content = ''two''\<rparr>])) ''A'',
        Send ''u3'' ''more''] start)))))"
  using C10_store_has_no_placeholder [where api = demo_api and evs =
      "[Send ''u1'' ''first'', Response 0 (NotOk ''Bad Gateway'') ''n1'',
        Send ''u2'' ''again'',
        Response 0 (Parsed (Some [\<lparr>msg_id = ''r2'', role = Assistant, content = ''two''\<rparr>])) ''A'',
        Send ''u3'' ''more'']"]
  by (simp add: model_defs)

text \<open>
  The claim as stated fails: the returned sequence is stored as it is, so a response
  that itself contains a turn equal to the placeholder puts it into the store.
\<close>

theorem C10_counterexample:
  "conversationHistory (app (run demo_api
       [Send ''u1'' ''first'',
        Response 0 (Parsed (Some [\<lparr>msg_id = ''u1'', role = User, content = ''first''\<rparr>,
                                  \<lparr>msg_id = ''loader'', role = Assistant, content = ''...''\<rparr>])) ''A'']
       start))
     = [\<lparr>c_id = ''A'', title = ''first...'',
          c_messages = [\<lparr>msg_id = ''u1'', role = User, content = ''first''\<rparr>, loadingMessage]\<rparr>]
   \<and> loadingMessage \<in> set (c_messages (hd (conversationHistory (app (run demo_api
       [Send ''u1'' ''first'',
        Response 0 (Parsed (Some [\<lparr>msg_id = ''u1'', role = User, content = ''first''\<rparr>,
                                  \<lparr>msg_id = ''loader'', role = Assistant, content = ''...''\<rparr>])) ''A'']
       start)))))"
  by (simp add: model_defs)

end
